theory Spec2Isabelle
  imports Main "HOL-Library.Sublist"
begin

section \<open>Python string operations used by the web connector\<close>

text \<open>
  The connector (\<^verbatim>\<open>backend/onyx/connectors/web/connector.py\<close>) works on Python
  strings. Strings are modelled as \<^typ>\<open>string\<close>; the operations below are the ones the
  source applies to URLs and hrefs.
\<close>

text \<open>\<^verbatim>\<open>s.split(sep)\<close> for a one-character separator: never empty, \<^verbatim>\<open>"".split(".") == [""]\<close>.\<close>

fun split_on :: "char \<Rightarrow> string \<Rightarrow> string list" where
  "split_on c [] = [[]]"
| "split_on c (x # xs) =
     (if x = c then [] # split_on c xs
      else (case split_on c xs of
              w # ws \<Rightarrow> (x # w) # ws
            | [] \<Rightarrow> [[x]]))"

text \<open>\<^verbatim>\<open>needle in haystack\<close> on strings: a contiguous substring.\<close>

fun py_in :: "string \<Rightarrow> string \<Rightarrow> bool" where
  "py_in needle [] = (needle = [])"
| "py_in needle (h # hs) = (prefix needle (h # hs) \<or> py_in needle hs)"

text \<open>\<^verbatim>\<open>s.replace(a, b)\<close> for one-character \<^verbatim>\<open>a\<close> and \<^verbatim>\<open>b\<close>.\<close>

definition replace_char :: "char \<Rightarrow> char \<Rightarrow> string \<Rightarrow> string" where
  "replace_char a b s = map (\<lambda>c. if c = a then b else c) s"

text \<open>\<^verbatim>\<open>str(n)\<close> for an integer: decimal digits, with a minus sign when negative.\<close>

definition digit_char :: "nat \<Rightarrow> char" where
  "digit_char d = char_of (48 + d)"

fun str_nat :: "nat \<Rightarrow> string" where
  "str_nat n = (if n < 10 then [digit_char n] else str_nat (n div 10) @ [digit_char (n mod 10)])"

definition str_int :: "int \<Rightarrow> string" where
  "str_int i = (if i < 0 then CHR ''-'' # str_nat (nat (- i)) else str_nat (nat i))"

section \<open>Fetch strategy selection\<close>

text \<open>
  Line 278: \<^verbatim>\<open>if current_url.split(".")[-1] == "pdf":\<close> selects the direct GET;
  every other URL is loaded in the rendering session.
\<close>

definition is_pdf_url :: "string \<Rightarrow> bool" where
  "is_pdf_url current_url = (last (split_on CHR ''.'' current_url) = ''pdf'')"

text \<open>
  The text after the final dot of a text, all of it when the text has no dot: what the
  claim on the dispatch of PDF URLs calls the substring after the final dot.
\<close>

definition after_final_dot :: "string \<Rightarrow> string" where
  "after_final_dot url = rev (takeWhile (\<lambda>c. c \<noteq> CHR ''.'') (rev url))"

text \<open>The apostrophes the f-strings of the error messages put around the URL.\<close>

definition quoted :: "string \<Rightarrow> string" where
  "quoted s = CHR 0x27 # s @ [CHR 0x27]"

section \<open>Collaborators\<close>

text \<open>
  A call that may raise returns a sum: \<open>Inl msg\<close> is an exception whose \<^verbatim>\<open>str(e)\<close> is
  \<open>msg\<close>, \<open>Inr v\<close> is the value returned.

  The functions of the Python standard library that the connector applies to strings are
  parameters of the model: \<^verbatim>\<open>int(s)\<close>, \<^verbatim>\<open>urlparse(s)\<close> (its \<^verbatim>\<open>scheme\<close> and
  \<^verbatim>\<open>netloc\<close>), \<^verbatim>\<open>urljoin(base, s)\<close> and \<^verbatim>\<open>datetime.strptime\<close> with the format of
  the \<^verbatim>\<open>Last-Modified\<close> header (\<open>None\<close> when it raises).
\<close>

record pylib =
  py_int :: "string \<Rightarrow> string + int"
  urlparse :: "string \<Rightarrow> string + (string \<times> string)"
  urljoin :: "string \<Rightarrow> string \<Rightarrow> string + string"
  strptime :: "string \<Rightarrow> int option"

text \<open>
  The second argument of \<^verbatim>\<open>handle_ratelimit\<close>: the probe passes the header text as it
  is (or the integer 5), the crawl loop passes \<^verbatim>\<open>int(...)\<close> of it.
\<close>

datatype retry_after = RetryInt int | RetryHeader string

fun str_retry :: "retry_after \<Rightarrow> string" where
  "str_retry (RetryInt n) = str_int n"
| "str_retry (RetryHeader h) = h"

text \<open>
  \<^verbatim>\<open>URLFrontier\<close> (\<^verbatim>\<open>onyx.utils.url_frontier\<close>) is a class the connector imports. The
  crawl loop is modelled for any frontier: a state type \<open>'f\<close> with the constructor and the
  four methods the connector calls.
\<close>

record 'f url_frontier =
  new_frontier :: "'f"
  add_url :: "string \<Rightarrow> 'f \<Rightarrow> 'f"
  has_next_url :: "'f \<Rightarrow> bool"
  get_next_url :: "'f \<Rightarrow> string option \<times> 'f"
  handle_ratelimit :: "string \<Rightarrow> retry_after \<Rightarrow> 'f \<Rightarrow> 'f"

section \<open>Documents\<close>

datatype document_source = WEB

record document =
  doc_id :: string
  sections :: "(string \<times> string) list"
  source :: document_source
  semantic_identifier :: string
  metadata :: "(string \<times> string) list"
  doc_updated_at :: "int option"

text \<open>
  \<^verbatim>\<open>_get_datetime_from_last_modified_header(last_modified) if last_modified else None\<close>:
  a missing or empty header gives no timestamp, and so does a header that does not parse.
\<close>

definition get_datetime_from_last_modified_header :: "pylib \<Rightarrow> string \<Rightarrow> int option" where
  "get_datetime_from_last_modified_header L last_modified = strptime L last_modified"

definition updated_at :: "pylib \<Rightarrow> string option \<Rightarrow> int option" where
  "updated_at L last_modified =
     (case last_modified of
        None \<Rightarrow> None
      | Some h \<Rightarrow> if h = [] then None else get_datetime_from_last_modified_header L h)"

section \<open>What the network and the renderer answer\<close>

text \<open>
  One observation per loop iteration: what \<^verbatim>\<open>requests.get\<close> answered to the probe, what
  it answered to the direct GET of a PDF (with the outcome of \<^verbatim>\<open>read_pdf_file\<close> on the
  bytes), and what the rendering session did with \<^verbatim>\<open>page.goto\<close>.

  \<open>HTTPError resp e\<close>: \<^verbatim>\<open>raise_for_status\<close> raised; \<open>resp\<close> is \<^verbatim>\<open>e.response\<close> (its
  status code and its \<^verbatim>\<open>Retry-After\<close> header) and \<open>e\<close> is \<^verbatim>\<open>str(e)\<close>.
  \<open>SSLError cause\<close>: \<open>cause\<close> is \<^verbatim>\<open>str(cause)\<close>.
\<close>

datatype probe_obs =
    ProbeOk
  | HTTPError "(int \<times> string option) option" string
  | SSLError string
  | RequestError string

record get_response =
  get_status :: int
  get_retry_after :: "string option"
  get_last_modified :: "string option"
  get_read_pdf :: "string + (string \<times> (string \<times> string) list)"

datatype pdf_obs = GetRaises string | GetReturns get_response

text \<open>
  A page load that produced a response: status and headers of \<^verbatim>\<open>page_response\<close>,
  \<^verbatim>\<open>page.url\<close> after redirects, the outcome of \<^verbatim>\<open>page.content()\<close> and of parsing it
  (an exception, or the \<^verbatim>\<open>href\<close> of every anchor tag, \<open>None\<close> where the tag has
  none), the outcome of \<^verbatim>\<open>web_html_cleanup\<close> (an exception, or the cleaned text and the
  title) and of \<^verbatim>\<open>page.close()\<close> (\<open>Some e\<close> when it raises).
\<close>

record page_load =
  page_status :: int
  page_retry_after :: "string option"
  page_last_modified :: "string option"
  page_url :: string
  page_content :: "string + string option list"
  page_cleanup :: "string + (string \<times> string option)"
  page_close :: "string option"

datatype page_obs = GotoRaises string | GotoNone | GotoReturns page_load

text \<open>
  What a call of \<^verbatim>\<open>start_playwright()\<close> meets: starting Playwright, launching the
  browser or creating the context raises (\<open>Some e\<close>) or not, and \<^verbatim>\<open>oauth.fetch_token\<close>
  raises or returns the access token (asked only when the three OAuth settings are set).
\<close>

record start_obs =
  start_launch :: "string option"
  start_token :: "string + string"

text \<open>
  \<open>ob_start\<close> answers the call of \<^verbatim>\<open>start_playwright()\<close> at line 275 and \<open>ob_stop\<close> the
  call of \<^verbatim>\<open>playwright.stop()\<close> at line 373 or 378 (\<open>Some e\<close> when it raises), when the
  iteration makes them; an iteration makes at most one of each.
\<close>

record observation =
  ob_probe :: probe_obs
  ob_start :: start_obs
  ob_pdf :: pdf_obs
  ob_page :: page_obs
  ob_stop :: "string option"

section \<open>The reachability probe\<close>

text \<open>The dictionary of lines 71 to 80, with its default.\<close>

definition error_msg :: "int \<Rightarrow> string" where
  "error_msg status_code =
     (if status_code = 400 then ''Bad Request''
      else if status_code = 401 then ''Unauthorized''
      else if status_code = 403 then ''Forbidden''
      else if status_code = 404 then ''Not Found''
      else if status_code = 500 then ''Internal Server Error''
      else if status_code = 502 then ''Bad Gateway''
      else if status_code = 503 then ''Service Unavailable''
      else if status_code = 504 then ''Gateway Timeout''
      else ''HTTP Error'')"

text \<open>
  \<^verbatim>\<open>check_internet_connection(url, frontier)\<close>: returns normally (\<open>None\<close>) or raises
  \<^verbatim>\<open>Exception(msg)\<close> (\<open>Some msg\<close>); on a 429 the frontier is told first.
\<close>

definition check_internet_connection ::
  "'f url_frontier \<Rightarrow> string \<Rightarrow> probe_obs \<Rightarrow> 'f \<Rightarrow> string option \<times> 'f" where
  "check_internet_connection F url ob fr =
     (case ob of
        ProbeOk \<Rightarrow> (None, fr)
      | HTTPError resp e \<Rightarrow>
          (let status_code = (case resp of Some (sc, _) \<Rightarrow> sc | None \<Rightarrow> - 1) in
           if status_code = 429 then
             (let retry_after =
                    (case resp of
                       Some (_, Some h) \<Rightarrow> RetryHeader h
                     | _ \<Rightarrow> RetryInt 5)
              in (Some (''Rate limited for '' @ url @ ''. Retry after ''
                          @ str_retry retry_after @ '' seconds''),
                  handle_ratelimit F url retry_after fr))
           else
             (Some (error_msg status_code @ '' ('' @ str_int status_code @ '') for ''
                      @ url @ '' - '' @ e), fr))
      | SSLError cause \<Rightarrow> (Some (''SSL error '' @ cause), fr)
      | RequestError e \<Rightarrow>
          (Some (''Unable to reach '' @ url @ '' - check your internet connection: '' @ e),
           fr))"

section \<open>The link extractor\<close>

text \<open>\<^verbatim>\<open>is_valid_url\<close>: scheme and netloc both non-empty; a \<^verbatim>\<open>ValueError\<close> gives False.\<close>

definition is_valid_url :: "pylib \<Rightarrow> string \<Rightarrow> bool" where
  "is_valid_url L url =
     (case urlparse L url of
        Inl _ \<Rightarrow> False
      | Inr (scheme, netloc) \<Rightarrow> scheme \<noteq> [] \<and> netloc \<noteq> [])"

text \<open>
  Lines 110 to 118, for one non-empty href: backslashes become slashes, the fragment is
  cut, and an href that is not a valid URL is joined to the URL of the page.
\<close>

definition resolve_href :: "pylib \<Rightarrow> string \<Rightarrow> bool \<Rightarrow> string \<Rightarrow> string + string" where
  "resolve_href L url should_ignore_pound href =
     (let href1 = replace_char (CHR 0x5C) CHR ''/'' href;
          href2 = (if should_ignore_pound \<and> CHR ''#'' \<in> set href1
                   then hd (split_on CHR ''#'' href1) else href1)
      in if \<not> is_valid_url L href2 then urljoin L url href2 else Inr href2)"

text \<open>
  Line 120: \<^verbatim>\<open>urlparse(href).netloc == urlparse(url).netloc and base_url in href\<close>.
\<close>

definition is_internal :: "pylib \<Rightarrow> string \<Rightarrow> string \<Rightarrow> string \<Rightarrow> string + bool" where
  "is_internal L base_url url href =
     (case urlparse L href of
        Inl e \<Rightarrow> Inl e
      | Inr (_, href_netloc) \<Rightarrow>
          (case urlparse L url of
             Inl e \<Rightarrow> Inl e
           | Inr (_, url_netloc) \<Rightarrow> Inr (href_netloc = url_netloc \<and> py_in base_url href)))"

text \<open>
  \<^verbatim>\<open>get_internal_links\<close>: the loop over the anchors, with the set built so far. The
  source collects a Python set; the model keeps a duplicate-free list, and only its
  members matter.
\<close>

fun internal_links_loop ::
  "pylib \<Rightarrow> string \<Rightarrow> string \<Rightarrow> bool \<Rightarrow> string option list \<Rightarrow> string list
     \<Rightarrow> string + string list" where
  "internal_links_loop L base_url url sip [] internal_links = Inr internal_links"
| "internal_links_loop L base_url url sip (link # rest) internal_links =
     (case link of
        None \<Rightarrow> internal_links_loop L base_url url sip rest internal_links
      | Some href \<Rightarrow>
          if href = [] then internal_links_loop L base_url url sip rest internal_links
          else
            (case resolve_href L url sip href of
               Inl e \<Rightarrow> Inl e
             | Inr href' \<Rightarrow>
                 (case is_internal L base_url url href' of
                    Inl e \<Rightarrow> Inl e
                  | Inr keep \<Rightarrow>
                      internal_links_loop L base_url url sip rest
                        (if keep then List.insert href' internal_links else internal_links))))"

definition get_internal_links ::
  "pylib \<Rightarrow> string \<Rightarrow> string \<Rightarrow> string option list \<Rightarrow> bool \<Rightarrow> string + string list" where
  "get_internal_links L base_url url soup should_ignore_pound =
     internal_links_loop L base_url url should_ignore_pound soup []"

section \<open>The connector and the state of one crawl\<close>

record web_connector =
  mintlify_cleanup :: bool
  batch_size :: int
  recursive :: bool
  to_visit_list :: "string list"

text \<open>
  The settings \<^verbatim>\<open>WEB_CONNECTOR_OAUTH_CLIENT_ID\<close>, \<^verbatim>\<open>WEB_CONNECTOR_OAUTH_CLIENT_SECRET\<close>
  and \<^verbatim>\<open>WEB_CONNECTOR_OAUTH_TOKEN_URL\<close> of \<^verbatim>\<open>onyx.configs.app_configs\<close>, parameters of
  the model; a setting counts when it is set and not empty.
\<close>

record oauth_config =
  oauth_client_id :: "string option"
  oauth_client_secret :: "string option"
  oauth_token_url :: "string option"

definition truthy :: "string option \<Rightarrow> bool" where
  "truthy v = (case v of None \<Rightarrow> False | Some t \<Rightarrow> t \<noteq> [])"

text \<open>
  A rendering session: the Playwright driver with its browser and context. \<open>running\<close>
  holds until \<^verbatim>\<open>playwright.stop()\<close> has returned for it.
\<close>

record playwright_session =
  running :: bool
  extra_http_headers :: "(string \<times> string) list"

text \<open>
  \<^verbatim>\<open>start_playwright()\<close>, lines 125 to 147. It can raise before anything runs
  (\<open>LaunchRaised\<close>), or in the token request, when the browser is already launched
  (\<open>TokenRaised\<close>); otherwise it returns the session, with the bearer token as a header
  when OAuth is configured.
\<close>

datatype start_result =
    LaunchRaised string
  | TokenRaised string
  | Started playwright_session

definition start_playwright :: "oauth_config \<Rightarrow> start_obs \<Rightarrow> start_result" where
  "start_playwright C ob =
     (case start_launch ob of
        Some e \<Rightarrow> LaunchRaised e
      | None \<Rightarrow>
          if truthy (oauth_client_id C) \<and> truthy (oauth_client_secret C)
             \<and> truthy (oauth_token_url C)
          then
            (case start_token ob of
               Inl e \<Rightarrow> TokenRaised e
             | Inr token \<Rightarrow>
                 Started \<lparr>running = True,
                          extra_http_headers = [(''Authorization'', ''Bearer '' @ token)]\<rparr>)
          else Started \<lparr>running = True, extra_http_headers = []\<rparr>)"

text \<open>
  The local variables of \<^verbatim>\<open>load_from_state\<close>, and what it has done so far:
  \<^item> \<open>playwrights\<close>: the rendering sessions launched so far, in order; \<open>playwright\<close> is
    the position of the one the variable \<^verbatim>\<open>playwright\<close> is bound to;
  \<^item> \<open>yielded\<close>: the batches the generator has yielded, in order;
  \<^item> \<open>visiting\<close>: the URLs of the log lines \<^verbatim>\<open>Visiting {current_url}\<close>, in order;
  \<^item> \<open>uncaught\<close>: the exception that no handler caught, once there is one; the
    generator has then ended with it.
\<close>

record 'f crawl_state =
  frontier :: "'f"
  doc_batch :: "document list"
  at_least_one_doc :: bool
  last_error :: "string option"
  playwrights :: "playwright_session list"
  playwright :: nat
  restart_playwright :: bool
  yielded :: "document list list"
  visiting :: "string list"
  uncaught :: "string option"

text \<open>
  \<^verbatim>\<open>playwright, context = start_playwright()\<close>: \<open>Some e\<close> when the call raises \<open>e\<close>. A
  session launched by a call that raises afterwards is bound to no variable and keeps
  running.
\<close>

definition assign_playwright ::
  "oauth_config \<Rightarrow> start_obs \<Rightarrow> 'f crawl_state \<Rightarrow> string option \<times> 'f crawl_state" where
  "assign_playwright C ob s =
     (case start_playwright C ob of
        LaunchRaised e \<Rightarrow> (Some e, s)
      | TokenRaised e \<Rightarrow>
          (Some e,
           s\<lparr>playwrights := playwrights s @ [\<lparr>running = True, extra_http_headers = []\<rparr>]\<rparr>)
      | Started session \<Rightarrow>
          (None,
           s\<lparr>playwrights := playwrights s @ [session],
             playwright := length (playwrights s)\<rparr>))"

text \<open>
  \<^verbatim>\<open>playwright.stop()\<close>: \<open>Some e\<close> when the call raises \<open>e\<close>; otherwise the session the
  variable is bound to runs no more.
\<close>

definition stop_session :: "nat \<Rightarrow> playwright_session list \<Rightarrow> playwright_session list" where
  "stop_session i ps =
     map (\<lambda>(j, p). if j = i then p\<lparr>running := False\<rparr> else p) (enumerate 0 ps)"

definition playwright_stop ::
  "string option \<Rightarrow> 'f crawl_state \<Rightarrow> string option \<times> 'f crawl_state" where
  "playwright_stop ob s =
     (case ob of
        Some e \<Rightarrow> (Some e, s)
      | None \<Rightarrow> (None, s\<lparr>playwrights := stop_session (playwright s) (playwrights s)\<rparr>))"

text \<open>How the body of the \<^verbatim>\<open>try\<close> statement is left.\<close>

datatype control = Raised string | Continue | FallThrough

section \<open>Direct retrieval of a PDF (lines 280 to 312)\<close>

definition pdf_document ::
  "pylib \<Rightarrow> string \<Rightarrow> string \<Rightarrow> (string \<times> string) list \<Rightarrow> string option \<Rightarrow> document" where
  "pdf_document L current_url page_text pdf_metadata last_modified =
     \<lparr>doc_id = current_url,
      sections = [(current_url, page_text)],
      source = WEB,
      semantic_identifier = last (split_on CHR ''/'' current_url),
      metadata = pdf_metadata,
      doc_updated_at = updated_at L last_modified\<rparr>"

definition fetch_pdf ::
  "'f url_frontier \<Rightarrow> pylib \<Rightarrow> string \<Rightarrow> pdf_obs \<Rightarrow> 'f crawl_state
     \<Rightarrow> control \<times> 'f crawl_state" where
  "fetch_pdf F L current_url ob s =
     (case ob of
        GetRaises e \<Rightarrow> (Raised e, s)
      | GetReturns response \<Rightarrow>
          if get_status response = 429 then
            (case (case get_retry_after response of
                     None \<Rightarrow> Inr 5
                   | Some h \<Rightarrow> py_int L h) of
               Inl e \<Rightarrow> (Raised e, s)
             | Inr n \<Rightarrow>
                 (Continue,
                  s\<lparr>frontier := handle_ratelimit F current_url (RetryInt n) (frontier s)\<rparr>))
          else if get_status response \<noteq> 200 then
            (Continue,
             s\<lparr>last_error := Some (''Failed to fetch '' @ quoted current_url @ '': ''
                                    @ str_int (get_status response))\<rparr>)
          else
            (case get_read_pdf response of
               Inl e \<Rightarrow> (Raised e, s)
             | Inr (page_text, pdf_metadata) \<Rightarrow>
                 (Continue,
                  s\<lparr>doc_batch := doc_batch s @
                       [pdf_document L current_url page_text pdf_metadata
                          (get_last_modified response)]\<rparr>)))"

section \<open>Rendered retrieval of a page (lines 314 to 369)\<close>

definition html_document ::
  "pylib \<Rightarrow> string \<Rightarrow> string \<Rightarrow> string option \<Rightarrow> string option \<Rightarrow> document" where
  "html_document L current_url cleaned_text title last_modified =
     \<lparr>doc_id = current_url,
      sections = [(current_url, cleaned_text)],
      source = WEB,
      semantic_identifier =
        (case title of
           None \<Rightarrow> current_url
         | Some t \<Rightarrow> if t = [] then current_url else t),
      metadata = [],
      doc_updated_at = updated_at L last_modified\<rparr>"

text \<open>Line 341: \<^verbatim>\<open>str(page_response.status)[0] in ("4", "5")\<close>.\<close>

definition is_error_status :: "int \<Rightarrow> bool" where
  "is_error_status st =
     (case str_int st of
        [] \<Rightarrow> False
      | d # _ \<Rightarrow> d = CHR ''4'' \<or> d = CHR ''5'')"

text \<open>Lines 336 to 339: in recursive mode every internal link goes to the frontier.\<close>

definition submit_links ::
  "'f url_frontier \<Rightarrow> pylib \<Rightarrow> bool \<Rightarrow> string \<Rightarrow> string \<Rightarrow> string option list
     \<Rightarrow> 'f crawl_state \<Rightarrow> string + 'f crawl_state" where
  "submit_links F L is_recursive base_url current_url soup s =
     (if is_recursive then
        (case get_internal_links L base_url current_url soup True of
           Inl e \<Rightarrow> Inl e
         | Inr internal_links \<Rightarrow>
             Inr (s\<lparr>frontier := fold (add_url F) internal_links (frontier s)\<rparr>))
      else Inr s)"

definition fetch_page ::
  "'f url_frontier \<Rightarrow> pylib \<Rightarrow> bool \<Rightarrow> string \<Rightarrow> string \<Rightarrow> page_obs \<Rightarrow> 'f crawl_state
     \<Rightarrow> control \<times> 'f crawl_state" where
  "fetch_page F L is_recursive base_url current_url ob s =
     (case ob of
        GotoRaises e \<Rightarrow> (Raised e, s)
      | GotoNone \<Rightarrow>
          (Continue, s\<lparr>last_error := Some (''Failed to fetch '' @ quoted current_url)\<rparr>)
      | GotoReturns page_response \<Rightarrow>
          if page_url page_response \<noteq> current_url then
            (Continue, s\<lparr>frontier := add_url F (page_url page_response) (frontier s)\<rparr>)
          else
            (case page_content page_response of
               Inl e \<Rightarrow> (Raised e, s)
             | Inr soup \<Rightarrow>
                 (case submit_links F L is_recursive base_url current_url soup s of
                    Inl e \<Rightarrow> (Raised e, s)
                  | Inr s1 \<Rightarrow>
                      if is_error_status (page_status page_response) then
                        (let s2 = s1\<lparr>last_error :=
                                        Some (''Skipped indexing '' @ current_url
                                              @ '' due to HTTP ''
                                              @ str_int (page_status page_response)
                                              @ '' response'')\<rparr>
                         in if page_status page_response = 429 then
                              (case (case page_retry_after page_response of
                                       None \<Rightarrow> Inr 5
                                     | Some h \<Rightarrow> if h = [] then Inr 5 else py_int L h) of
                                 Inl e \<Rightarrow> (Raised e, s2)
                               | Inr n \<Rightarrow>
                                   (Continue,
                                    s2\<lparr>frontier :=
                                         handle_ratelimit F current_url (RetryInt n)
                                           (frontier s2)\<rparr>))
                            else (Continue, s2))
                      else
                        (case page_cleanup page_response of
                           Inl e \<Rightarrow> (Raised e, s1)
                         | Inr (cleaned_text, title) \<Rightarrow>
                             (let s2 = s1\<lparr>doc_batch := doc_batch s1 @
                                             [html_document L current_url cleaned_text title
                                                (page_last_modified page_response)]\<rparr>
                              in case page_close page_response of
                                   Some e \<Rightarrow> (Raised e, s2)
                                 | None \<Rightarrow> (FallThrough, s2))))))"

section \<open>One iteration of the crawl loop (lines 265 to 382)\<close>

text \<open>Lines 274 to 276: a session stopped earlier is replaced once the probe has passed.\<close>

definition ensure_playwright ::
  "oauth_config \<Rightarrow> start_obs \<Rightarrow> 'f crawl_state \<Rightarrow> string option \<times> 'f crawl_state" where
  "ensure_playwright C ob s =
     (if restart_playwright s then
        (case assign_playwright C ob s of
           (Some e, s1) \<Rightarrow> (Some e, s1)
         | (None, s1) \<Rightarrow> (None, s1\<lparr>restart_playwright := False\<rparr>))
      else (None, s))"

text \<open>The body of the \<^verbatim>\<open>try\<close> statement, lines 273 to 369.\<close>

definition try_body ::
  "'f url_frontier \<Rightarrow> pylib \<Rightarrow> oauth_config \<Rightarrow> web_connector \<Rightarrow> string \<Rightarrow> string
     \<Rightarrow> observation \<Rightarrow> 'f crawl_state \<Rightarrow> control \<times> 'f crawl_state" where
  "try_body F L C self base_url current_url ob s =
     (case check_internet_connection F current_url (ob_probe ob) (frontier s) of
        (Some e, fr) \<Rightarrow> (Raised e, s\<lparr>frontier := fr\<rparr>)
      | (None, fr) \<Rightarrow>
          (case ensure_playwright C (ob_start ob) (s\<lparr>frontier := fr\<rparr>) of
             (Some e, s1) \<Rightarrow> (Raised e, s1)
           | (None, s1) \<Rightarrow>
               if is_pdf_url current_url then fetch_pdf F L current_url (ob_pdf ob) s1
               else fetch_page F L (recursive self) base_url current_url (ob_page ob) s1))"

text \<open>
  The \<^verbatim>\<open>except Exception as e\<close> handler, lines 370 to 375. An exception of
  \<^verbatim>\<open>playwright.stop()\<close> raised inside the handler is caught by nothing.
\<close>

definition handle_fault ::
  "string \<Rightarrow> string \<Rightarrow> string option \<Rightarrow> 'f crawl_state \<Rightarrow> 'f crawl_state" where
  "handle_fault current_url e stop s =
     (case playwright_stop stop
             (s\<lparr>last_error :=
                  Some (''Failed to fetch '' @ quoted current_url @ '': '' @ e)\<rparr>) of
        (Some e', s1) \<Rightarrow> s1\<lparr>uncaught := Some e'\<rparr>
      | (None, s1) \<Rightarrow> s1\<lparr>restart_playwright := True\<rparr>)"

text \<open>The batch check after the \<^verbatim>\<open>try\<close> statement, lines 377 to 382.\<close>

definition emit_if_full ::
  "web_connector \<Rightarrow> string option \<Rightarrow> 'f crawl_state \<Rightarrow> 'f crawl_state" where
  "emit_if_full self stop s =
     (if int (length (doc_batch s)) \<ge> batch_size self then
        (case playwright_stop stop s of
           (Some e, s1) \<Rightarrow> s1\<lparr>uncaught := Some e\<rparr>
         | (None, s1) \<Rightarrow>
             s1\<lparr>restart_playwright := True,
                at_least_one_doc := True,
                yielded := yielded s1 @ [doc_batch s1],
                doc_batch := []\<rparr>)
      else s)"

definition loop_iteration ::
  "'f url_frontier \<Rightarrow> pylib \<Rightarrow> oauth_config \<Rightarrow> web_connector \<Rightarrow> string \<Rightarrow> observation
     \<Rightarrow> 'f crawl_state \<Rightarrow> 'f crawl_state" where
  "loop_iteration F L C self base_url ob s =
     (case get_next_url F (frontier s) of
        (current, fr) \<Rightarrow>
          (let s0 = s\<lparr>frontier := fr\<rparr> in
           case current of
             None \<Rightarrow> s0
           | Some current_url \<Rightarrow>
               if current_url = [] then s0
               else
                 (case try_body F L C self base_url current_url ob
                         (s0\<lparr>visiting := visiting s0 @ [current_url]\<rparr>) of
                    (Raised e, s1) \<Rightarrow> handle_fault current_url e (ob_stop ob) s1
                  | (Continue, s1) \<Rightarrow> s1
                  | (FallThrough, s1) \<Rightarrow> emit_if_full self (ob_stop ob) s1)))"

section \<open>The crawl loop and the generator\<close>

text \<open>
  \<^verbatim>\<open>while frontier.has_next_url():\<close> The loop is driven by the list of observations, one
  per iteration (an iteration that pops no URL uses none of its observation). It ends
  when the frontier has no next URL, or when an exception was caught by nothing. \<open>None\<close>:
  the frontier still has a next URL when the observations are used up, so the run is not
  finished.
\<close>

fun crawl_loop ::
  "'f url_frontier \<Rightarrow> pylib \<Rightarrow> oauth_config \<Rightarrow> web_connector \<Rightarrow> string
     \<Rightarrow> observation list \<Rightarrow> 'f crawl_state \<Rightarrow> 'f crawl_state option" where
  "crawl_loop F L C self base_url [] s =
     (if uncaught s \<noteq> None then Some s
      else if has_next_url F (frontier s) then None else Some s)"
| "crawl_loop F L C self base_url (ob # obs) s =
     (if uncaught s \<noteq> None then Some s
      else if has_next_url F (frontier s)
      then crawl_loop F L C self base_url obs (loop_iteration F L C self base_url ob s)
      else Some s)"

datatype exn = ValueError string | RuntimeError string | OtherError string

text \<open>
  What a caller that drains the generator sees: the batches yielded, the exception that
  ended it (if any; \<open>OtherError\<close> is an exception of \<^verbatim>\<open>start_playwright()\<close> or
  \<^verbatim>\<open>playwright.stop()\<close> that nothing caught), the last recorded fault, the rendering
  sessions launched (True: still running) and the URLs visited.
\<close>

record crawl_result =
  batches :: "document list list"
  raised :: "exn option"
  fault :: "string option"
  sessions :: "bool list"
  visited :: "string list"

text \<open>Lines 384 to 392: the final flush and the terminal check.\<close>

definition final_flush :: "string option \<Rightarrow> 'f crawl_state \<Rightarrow> 'f crawl_state" where
  "final_flush stop s =
     (if doc_batch s \<noteq> [] then
        (case playwright_stop stop s of
           (Some e, s1) \<Rightarrow> s1\<lparr>uncaught := Some e\<rparr>
         | (None, s1) \<Rightarrow>
             s1\<lparr>at_least_one_doc := True, yielded := yielded s1 @ [doc_batch s1]\<rparr>)
      else s)"

definition terminal_error :: "'f crawl_state \<Rightarrow> exn option" where
  "terminal_error s =
     (if \<not> at_least_one_doc s then
        (case last_error s of
           None \<Rightarrow> Some (RuntimeError ''No valid pages found.'')
         | Some e \<Rightarrow>
             if e = [] then Some (RuntimeError ''No valid pages found.'')
             else Some (RuntimeError e))
      else None)"

text \<open>How the generator ends: with the exception nothing caught, or at line 389.\<close>

definition generator_end :: "'f crawl_state \<Rightarrow> exn option" where
  "generator_end s =
     (case uncaught s of
        Some e \<Rightarrow> Some (OtherError e)
      | None \<Rightarrow> terminal_error s)"

text \<open>The variables after line 260, before the first rendering session is started.\<close>

definition initial_state :: "'f url_frontier \<Rightarrow> web_connector \<Rightarrow> 'f crawl_state" where
  "initial_state F self =
     \<lparr>frontier = fold (add_url F) (to_visit_list self) (new_frontier F),
      doc_batch = [],
      at_least_one_doc = False,
      last_error = None,
      playwrights = [],
      playwright = 0,
      restart_playwright = False,
      yielded = [],
      visiting = [],
      uncaught = None\<rparr>"

definition crawl_result_of :: "'f crawl_state \<Rightarrow> crawl_result" where
  "crawl_result_of s =
     \<lparr>batches = yielded s, raised = generator_end s, fault = last_error s,
      sessions = map running (playwrights s), visited = visiting s\<rparr>"

text \<open>
  \<^verbatim>\<open>load_from_state\<close>, drained by its caller. \<open>first_start\<close> answers the call of
  \<^verbatim>\<open>start_playwright()\<close> at line 262 and \<open>last_stop\<close> the call of \<^verbatim>\<open>playwright.stop()\<close>
  at line 385; both calls stand outside the \<^verbatim>\<open>try\<close> statement.
\<close>

definition load_from_state ::
  "'f url_frontier \<Rightarrow> pylib \<Rightarrow> oauth_config \<Rightarrow> web_connector \<Rightarrow> start_obs
     \<Rightarrow> observation list \<Rightarrow> string option \<Rightarrow> crawl_result option" where
  "load_from_state F L C self first_start obs last_stop =
     (case to_visit_list self of
        [] \<Rightarrow>
          Some \<lparr>batches = [], raised = Some (ValueError ''No URLs to visit''),
                fault = None, sessions = [], visited = []\<rparr>
      | base_url # _ \<Rightarrow>
          (case assign_playwright C first_start (initial_state F self) of
             (Some e, s0) \<Rightarrow> Some (crawl_result_of (s0\<lparr>uncaught := Some e\<rparr>))
           | (None, s0) \<Rightarrow>
               (case crawl_loop F L C self base_url obs s0 of
                  None \<Rightarrow> None
                | Some s \<Rightarrow>
                    Some (crawl_result_of
                            (if uncaught s = None then final_flush last_stop s else s)))))"

section \<open>Construction of the connector (lines 150 to 238)\<close>

definition ensure_valid_url :: "string \<Rightarrow> string" where
  "ensure_valid_url url = (if \<not> py_in ''://'' url then ''https://'' @ url else url)"

text \<open>\<^verbatim>\<open>str.strip()\<close>: the characters below 256 for which \<^verbatim>\<open>isspace()\<close> holds.\<close>

definition is_space :: "char \<Rightarrow> bool" where
  "is_space c = ((of_char c :: nat) \<in> {9, 10, 11, 12, 13, 28, 29, 30, 31, 32, 133, 160})"

definition py_strip :: "string \<Rightarrow> string" where
  "py_strip s = rev (dropWhile is_space (rev (dropWhile is_space s)))"

text \<open>\<^verbatim>\<open>_read_urls_file\<close>, given the lines of the file.\<close>

definition read_urls_file :: "string list \<Rightarrow> string list" where
  "read_urls_file file_lines =
     map (\<lambda>line. ensure_valid_url (py_strip line))
       (filter (\<lambda>line. py_strip line \<noteq> []) file_lines)"

definition ensure_absolute_url :: "pylib \<Rightarrow> string \<Rightarrow> string \<Rightarrow> string + string" where
  "ensure_absolute_url L source_url maybe_relative_url =
     (case urlparse L maybe_relative_url of
        Inl e \<Rightarrow> Inl e
      | Inr (_, netloc) \<Rightarrow>
          if netloc = [] then urljoin L source_url maybe_relative_url
          else Inr maybe_relative_url)"

fun ensure_absolute_urls :: "pylib \<Rightarrow> string \<Rightarrow> string list \<Rightarrow> string + string list" where
  "ensure_absolute_urls L source_url [] = Inr []"
| "ensure_absolute_urls L source_url (loc # locs) =
     (case ensure_absolute_url L source_url loc of
        Inl e \<Rightarrow> Inl e
      | Inr u \<Rightarrow>
          (case ensure_absolute_urls L source_url locs of
             Inl e \<Rightarrow> Inl e
           | Inr us \<Rightarrow> Inr (u # us)))"

text \<open>
  What the sitemap request answers: an exception of \<^verbatim>\<open>requests.get\<close> or
  \<^verbatim>\<open>raise_for_status\<close>, the texts of the \<^verbatim>\<open>loc\<close> tags, the number of \<^verbatim>\<open>urlset\<close> tags,
  and what \<^verbatim>\<open>list_pages_for_site\<close> returns.
\<close>

record sitemap_obs =
  sitemap_request :: "string option"
  sitemap_locs :: "string list"
  sitemap_urlsets :: nat
  site_pages :: "string + string list"

definition extract_urls_from_sitemap ::
  "pylib \<Rightarrow> string \<Rightarrow> sitemap_obs \<Rightarrow> exn + string list" where
  "extract_urls_from_sitemap L sitemap_url ob =
     (case sitemap_request ob of
        Some e \<Rightarrow> Inl (OtherError e)
      | None \<Rightarrow>
          (case ensure_absolute_urls L sitemap_url (sitemap_locs ob) of
             Inl e \<Rightarrow> Inl (ValueError e)
           | Inr urls \<Rightarrow>
               (case (if length urls = 0 \<and> sitemap_urlsets ob = 0
                      then site_pages ob else Inr urls) of
                  Inl e \<Rightarrow> Inl (OtherError e)
                | Inr urls' \<Rightarrow>
                    if length urls' = 0 then
                      Inl (ValueError (''No URLs found in sitemap '' @ sitemap_url
                        @ ''. Try using the '' @ quoted ''single'' @ '' or ''
                        @ quoted ''recursive'' @ '' scraping options instead.''))
                    else Inr urls')))"

text \<open>
  \<^verbatim>\<open>WebConnector.__init__\<close>. \<open>sitemap\<close> is what the sitemap request answers and
  \<open>url_file\<close> what opening the file gives (an exception, or its lines); each is used by
  one mode only.
\<close>

definition web_connector_init ::
  "pylib \<Rightarrow> string \<Rightarrow> string \<Rightarrow> bool \<Rightarrow> int \<Rightarrow> sitemap_obs \<Rightarrow> string + string list
     \<Rightarrow> exn + web_connector" where
  "web_connector_init L base_url web_connector_type mintlify bsize sitemap url_file =
     (if web_connector_type = ''recursive'' then
        Inr \<lparr>mintlify_cleanup = mintlify, batch_size = bsize, recursive = True,
             to_visit_list = [ensure_valid_url base_url]\<rparr>
      else if web_connector_type = ''single'' then
        Inr \<lparr>mintlify_cleanup = mintlify, batch_size = bsize, recursive = False,
             to_visit_list = [ensure_valid_url base_url]\<rparr>
      else if web_connector_type = ''sitemap'' then
        (case extract_urls_from_sitemap L (ensure_valid_url base_url) sitemap of
           Inl e \<Rightarrow> Inl e
         | Inr urls \<Rightarrow>
             Inr \<lparr>mintlify_cleanup = mintlify, batch_size = bsize, recursive = False,
                  to_visit_list = urls\<rparr>)
      else if web_connector_type = ''upload'' then
        (case url_file of
           Inl e \<Rightarrow> Inl (OtherError e)
         | Inr file_lines \<Rightarrow>
             Inr \<lparr>mintlify_cleanup = mintlify, batch_size = bsize, recursive = False,
                  to_visit_list = read_urls_file file_lines\<rparr>)
      else
        Inl (ValueError ''Invalid Web Connector Config, must choose a valid type between: ''))"

section \<open>A frontier and a library to run the model on concrete crawls\<close>

text \<open>
  Modelled from the spec: \<^verbatim>\<open>URLFrontier\<close> (\<^verbatim>\<open>onyx.utils.url_frontier\<close>) is not among the
  sources. Section 4.1 of the specification: a queue in arrival order and a visited set;
  \<open>add\<close> enqueues a URL that is neither visited nor queued; \<open>next\<close> dequeues the first
  eligible entry and marks it visited; a rate-limit signal makes the URL unvisited again
  and re-enqueues it with its delay. Time does not pass in the model, so an entry that
  carries a delay stays ineligible. URLs are taken as already normalized. The theorems
  on the crawl loop hold for every frontier; this one only runs the examples.
\<close>

record simple_frontier =
  queue :: "(string \<times> retry_after option) list"
  seen :: "string list"

definition sf_add :: "string \<Rightarrow> simple_frontier \<Rightarrow> simple_frontier" where
  "sf_add url fr =
     (if url \<in> set (seen fr) \<or> url \<in> set (map fst (queue fr)) then fr
      else fr\<lparr>queue := queue fr @ [(url, None)]\<rparr>)"

definition sf_has_next :: "simple_frontier \<Rightarrow> bool" where
  "sf_has_next fr = list_ex (\<lambda>entry. snd entry = None) (queue fr)"

definition sf_next :: "simple_frontier \<Rightarrow> string option \<times> simple_frontier" where
  "sf_next fr =
     (case filter (\<lambda>entry. snd entry = None) (queue fr) of
        [] \<Rightarrow> (None, fr)
      | entry # _ \<Rightarrow>
          (Some (fst entry),
           fr\<lparr>queue := remove1 entry (queue fr), seen := seen fr @ [fst entry]\<rparr>))"

definition sf_ratelimit :: "string \<Rightarrow> retry_after \<Rightarrow> simple_frontier \<Rightarrow> simple_frontier" where
  "sf_ratelimit url delay fr =
     fr\<lparr>queue := queue fr @ [(url, Some delay)], seen := removeAll url (seen fr)\<rparr>"

definition simple_url_frontier :: "simple_frontier url_frontier" where
  "simple_url_frontier =
     \<lparr>new_frontier = \<lparr>queue = [], seen = []\<rparr>,
      add_url = sf_add,
      has_next_url = sf_has_next,
      get_next_url = sf_next,
      handle_ratelimit = sf_ratelimit\<rparr>"

text \<open>
  A library for the examples. \<open>simple_urlparse\<close> agrees with \<^verbatim>\<open>urlparse\<close> on URLs of
  the shape \<^verbatim>\<open>scheme://host/path?query\<close> (scheme before \<^verbatim>\<open>://\<close>, netloc up to the next
  \<^verbatim>\<open>/\<close>, \<^verbatim>\<open>?\<close> or \<^verbatim>\<open>#\<close>) and on texts without a colon that do not start with two
  slashes (no scheme, no netloc); the examples use no other. \<open>simple_int\<close> reads
  unsigned decimal digits. \<^verbatim>\<open>urljoin(base, "")\<close> is \<^verbatim>\<open>base\<close>; the examples join no
  other relative href and carry no \<^verbatim>\<open>Last-Modified\<close> header.
\<close>

fun split_scheme :: "string \<Rightarrow> string \<Rightarrow> (string \<times> string) option" where
  "split_scheme acc [] = None"
| "split_scheme acc (c # cs) =
     (if prefix ''://'' (c # cs) then Some (rev acc, drop 3 (c # cs))
      else split_scheme (c # acc) cs)"

definition simple_urlparse :: "string \<Rightarrow> string + (string \<times> string)" where
  "simple_urlparse url =
     (case split_scheme [] url of
        None \<Rightarrow> Inr ([], [])
      | Some (scheme, rest) \<Rightarrow>
          Inr (scheme,
               takeWhile (\<lambda>c. c \<noteq> CHR ''/'' \<and> c \<noteq> CHR ''?'' \<and> c \<noteq> CHR ''#'') rest))"

definition digit_value :: "char \<Rightarrow> nat option" where
  "digit_value c =
     (if 48 \<le> (of_char c :: nat) \<and> (of_char c :: nat) \<le> 57
      then Some ((of_char c :: nat) - 48) else None)"

fun read_digits :: "nat \<Rightarrow> string \<Rightarrow> nat option" where
  "read_digits acc [] = Some acc"
| "read_digits acc (c # cs) =
     (case digit_value c of
        None \<Rightarrow> None
      | Some d \<Rightarrow> read_digits (10 * acc + d) cs)"

definition simple_int :: "string \<Rightarrow> string + int" where
  "simple_int s =
     (case (if s = [] then None else read_digits 0 s) of
        None \<Rightarrow> Inl (''invalid literal for int() with base 10: '' @ quoted s)
      | Some n \<Rightarrow> Inr (int n))"

definition simple_lib :: pylib where
  "simple_lib =
     \<lparr>py_int = simple_int,
      urlparse = simple_urlparse,
      urljoin = (\<lambda>base href. if href = [] then Inr base
                 else Inl ''urljoin of a relative href is not modelled''),
      strptime = (\<lambda>h. None)\<rparr>"

text \<open>
  Answers for the examples. OAuth is not configured, and every session starts and stops
  without an exception unless the example says otherwise. A direct GET that returns a
  status (and a \<^verbatim>\<open>Retry-After\<close> header) with a readable PDF; a page load that returns a
  status, a final URL and the hrefs of its anchors; a page load without a response; a
  probe that fails.
\<close>

definition no_oauth :: oauth_config where
  "no_oauth = \<lparr>oauth_client_id = None, oauth_client_secret = None, oauth_token_url = None\<rparr>"

definition start_ok :: start_obs where
  "start_ok = \<lparr>start_launch = None, start_token = Inl ''not requested''\<rparr>"

definition pdf_answer :: "int \<Rightarrow> string option \<Rightarrow> observation" where
  "pdf_answer st retry =
     \<lparr>ob_probe = ProbeOk,
      ob_start = start_ok,
      ob_pdf = GetReturns \<lparr>get_status = st, get_retry_after = retry,
                           get_last_modified = None,
                           get_read_pdf = Inr (''pdf text'', [])\<rparr>,
      ob_page = GotoNone,
      ob_stop = None\<rparr>"

definition page_answer :: "int \<Rightarrow> string \<Rightarrow> string option list \<Rightarrow> observation" where
  "page_answer st final_url hrefs =
     \<lparr>ob_probe = ProbeOk,
      ob_start = start_ok,
      ob_pdf = GetRaises ''not requested'',
      ob_page = GotoReturns \<lparr>page_status = st, page_retry_after = None,
                             page_last_modified = None, page_url = final_url,
                             page_content = Inr hrefs,
                             page_cleanup = Inr (''page text'', Some ''Title''),
                             page_close = None\<rparr>,
      ob_stop = None\<rparr>"

definition no_response :: observation where
  "no_response =
     \<lparr>ob_probe = ProbeOk, ob_start = start_ok, ob_pdf = GetRaises ''not requested'',
      ob_page = GotoNone, ob_stop = None\<rparr>"

definition probe_answer :: "probe_obs \<Rightarrow> observation" where
  "probe_answer p =
     \<lparr>ob_probe = p, ob_start = start_ok, ob_pdf = GetRaises ''not requested'',
      ob_page = GotoNone, ob_stop = None\<rparr>"

definition connector :: "bool \<Rightarrow> int \<Rightarrow> string list \<Rightarrow> web_connector" where
  "connector is_recursive bsize urls =
     \<lparr>mintlify_cleanup = True, batch_size = bsize, recursive = is_recursive,
      to_visit_list = urls\<rparr>"

section \<open>Bookkeeping of the crawl loop\<close>

text \<open>
  What the loop keeps true of its variables: \<^verbatim>\<open>at_least_one_doc\<close> is set exactly when
  a batch has been yielded, and a recorded fault is never the empty text (so the test
  \<^verbatim>\<open>if last_error:\<close> of line 390 asks whether a fault was recorded).
\<close>

definition bookkeeping :: "'f crawl_state \<Rightarrow> bool" where
  "bookkeeping s =
     ((at_least_one_doc s = (yielded s \<noteq> [])) \<and> last_error s \<noteq> Some [])"

section \<open>Properties of the string operations\<close>

lemma split_on_nonempty: "split_on c s \<noteq> []"
  by (induction s) (auto split: list.splits)

lemma split_on_no_sep: "c \<notin> set s \<Longrightarrow> split_on c s = [s]"
  by (induction s) auto

lemma split_on_append: "split_on c (a @ c # b) = split_on c a @ split_on c b"
proof (induction a)
  case Nil
  show ?case by simp
next
  case (Cons x a)
  obtain w ws where w: "split_on c a = w # ws"
    using split_on_nonempty [of c a] by (cases "split_on c a") auto
  show ?case using Cons w by simp
qed

lemma last_split_on: "c \<notin> set b \<Longrightarrow> last (split_on c (a @ c # b)) = b"
  by (simp add: split_on_append split_on_nonempty split_on_no_sep)

text \<open>
  The exact reach of the test of line 278: the URL ends in \<^verbatim>\<open>.pdf\<close>, or it is the text
  \<^verbatim>\<open>pdf\<close> itself (a text without a dot is the only element of its split).
\<close>

lemma is_pdf_url_iff:
  "is_pdf_url url \<longleftrightarrow> url = ''pdf'' \<or> (\<exists>pre. url = pre @ ''.pdf'')"
proof (cases "CHR ''.'' \<in> set url")
  case False
  then have "split_on CHR ''.'' url = [url]" by (rule split_on_no_sep)
  moreover have "\<not> (\<exists>pre. url = pre @ ''.pdf'')" using False by auto
  ultimately show ?thesis by (simp add: is_pdf_url_def)
next
  case True
  then obtain a b where ab: "url = a @ CHR ''.'' # b" "CHR ''.'' \<notin> set b"
    by (auto dest: split_list_last)
  then have l: "last (split_on CHR ''.'' url) = b" by (simp add: last_split_on)
  have "b = ''pdf'' \<longleftrightarrow> (\<exists>pre. url = pre @ ''.pdf'')"
  proof
    assume "b = ''pdf''" then show "\<exists>pre. url = pre @ ''.pdf''" using ab by auto
  next
    assume "\<exists>pre. url = pre @ ''.pdf''"
    then obtain pre where "url = pre @ CHR ''.'' # ''pdf''" by auto
    then have "last (split_on CHR ''.'' url) = ''pdf''" by (simp add: last_split_on)
    then show "b = ''pdf''" using l by simp
  qed
  moreover have "url \<noteq> ''pdf''" using True by auto
  ultimately show ?thesis using l by (simp add: is_pdf_url_def)
qed

text \<open>The test of line 278 reads the text after the final dot.\<close>

lemma last_split_on_after_final:
  "last (split_on c s) = rev (takeWhile (\<lambda>x. x \<noteq> c) (rev s))"
proof (cases "c \<in> set s")
  case False
  then have tw: "takeWhile (\<lambda>x. x \<noteq> c) (rev s) = rev s"
    by (auto simp: takeWhile_eq_all_conv)
  show ?thesis using False by (simp add: split_on_no_sep tw)
next
  case True
  then obtain a b where ab: "s = a @ c # b" "c \<notin> set b"
    by (auto dest: split_list_last)
  have tw: "takeWhile (\<lambda>x. x \<noteq> c) (rev b @ c # rev a) = rev b"
    using ab(2) by (auto simp: takeWhile_tail takeWhile_eq_all_conv)
  have "rev s = rev b @ c # rev a" using ab(1) by simp
  then have r: "rev (takeWhile (\<lambda>x. x \<noteq> c) (rev s)) = b" by (simp only: tw rev_rev_ident)
  have l: "last (split_on c s) = b" using ab by (simp add: last_split_on)
  show ?thesis by (simp only: l r)
qed

lemma is_pdf_url_after_final_dot: "is_pdf_url url \<longleftrightarrow> after_final_dot url = ''pdf''"
  by (simp add: is_pdf_url_def after_final_dot_def last_split_on_after_final)

section \<open>Properties of the crawl loop\<close>

lemma quoted_nonempty: "quoted u \<noteq> []"
  by (simp add: quoted_def)

text \<open>What starting and stopping a session leave as it is.\<close>

lemma playwright_stop_frame:
  "playwright_stop ob s = (r, s1) \<Longrightarrow>
     frontier s1 = frontier s \<and> doc_batch s1 = doc_batch s
     \<and> at_least_one_doc s1 = at_least_one_doc s \<and> last_error s1 = last_error s
     \<and> yielded s1 = yielded s \<and> visiting s1 = visiting s \<and> uncaught s1 = uncaught s
     \<and> restart_playwright s1 = restart_playwright s \<and> r = ob"
  by (auto simp: playwright_stop_def split: option.splits)

lemma assign_playwright_frame:
  "assign_playwright C ob s = (r, s1) \<Longrightarrow>
     frontier s1 = frontier s \<and> doc_batch s1 = doc_batch s
     \<and> at_least_one_doc s1 = at_least_one_doc s \<and> last_error s1 = last_error s
     \<and> yielded s1 = yielded s \<and> visiting s1 = visiting s \<and> uncaught s1 = uncaught s
     \<and> restart_playwright s1 = restart_playwright s"
  by (auto simp: assign_playwright_def split: start_result.splits)

lemma ensure_playwright_frame:
  "ensure_playwright C ob s = (r, s1) \<Longrightarrow>
     frontier s1 = frontier s \<and> doc_batch s1 = doc_batch s
     \<and> at_least_one_doc s1 = at_least_one_doc s \<and> last_error s1 = last_error s
     \<and> yielded s1 = yielded s \<and> visiting s1 = visiting s \<and> uncaught s1 = uncaught s"
  by (auto simp: ensure_playwright_def dest!: assign_playwright_frame
      split: if_splits prod.splits option.splits)

text \<open>What the two fetch branches leave as it is.\<close>

lemma submit_links_frame:
  "submit_links F L r b u soup s = Inr s' \<Longrightarrow>
     yielded s' = yielded s \<and> at_least_one_doc s' = at_least_one_doc s
     \<and> last_error s' = last_error s \<and> doc_batch s' = doc_batch s
     \<and> playwrights s' = playwrights s \<and> playwright s' = playwright s
     \<and> restart_playwright s' = restart_playwright s
     \<and> visiting s' = visiting s \<and> uncaught s' = uncaught s"
  by (auto simp: submit_links_def split: if_splits sum.splits)

lemma fetch_pdf_frame:
  "fetch_pdf F L u ob s = (c, s') \<Longrightarrow>
     yielded s' = yielded s \<and> at_least_one_doc s' = at_least_one_doc s
     \<and> playwrights s' = playwrights s \<and> playwright s' = playwright s
     \<and> restart_playwright s' = restart_playwright s
     \<and> visiting s' = visiting s \<and> uncaught s' = uncaught s
     \<and> (last_error s' = last_error s \<or> (\<exists>e. last_error s' = Some e \<and> e \<noteq> []))"
  by (auto simp: fetch_pdf_def
      split: pdf_obs.splits if_splits sum.splits option.splits prod.splits)

lemma fetch_page_frame:
  "fetch_page F L r b u ob s = (c, s') \<Longrightarrow>
     yielded s' = yielded s \<and> at_least_one_doc s' = at_least_one_doc s
     \<and> playwrights s' = playwrights s \<and> playwright s' = playwright s
     \<and> restart_playwright s' = restart_playwright s
     \<and> visiting s' = visiting s \<and> uncaught s' = uncaught s
     \<and> (last_error s' = last_error s \<or> (\<exists>e. last_error s' = Some e \<and> e \<noteq> []))"
  by (auto simp: fetch_page_def Let_def dest!: submit_links_frame
      split: page_obs.splits if_splits sum.splits option.splits prod.splits)

lemma try_body_frame:
  assumes "try_body F L C self b u ob s = (c, s')"
  shows "yielded s' = yielded s \<and> at_least_one_doc s' = at_least_one_doc s
     \<and> visiting s' = visiting s \<and> uncaught s' = uncaught s
     \<and> (last_error s' = last_error s \<or> (\<exists>e. last_error s' = Some e \<and> e \<noteq> []))"
proof -
  obtain pe fr where p: "check_internet_connection F u (ob_probe ob) (frontier s) = (pe, fr)"
    by (cases "check_internet_connection F u (ob_probe ob) (frontier s)")
  show ?thesis
  proof (cases pe)
    case (Some e)
    then show ?thesis using assms p by (auto simp: try_body_def)
  next
    case None
    obtain se s1 where e: "ensure_playwright C (ob_start ob) (s\<lparr>frontier := fr\<rparr>) = (se, s1)"
      by (cases "ensure_playwright C (ob_start ob) (s\<lparr>frontier := fr\<rparr>)")
    note f1 = ensure_playwright_frame [OF e]
    show ?thesis
    proof (cases se)
      case (Some e')
      then show ?thesis using assms p None e f1 by (auto simp: try_body_def)
    next
      case n: None
      show ?thesis
      proof (cases "is_pdf_url u")
        case True
        then have "fetch_pdf F L u (ob_pdf ob) s1 = (c, s')"
          using assms p None e n by (simp add: try_body_def)
        from fetch_pdf_frame [OF this] f1 show ?thesis by auto
      next
        case False
        then have "fetch_page F L (recursive self) b u (ob_page ob) s1 = (c, s')"
          using assms p None e n by (simp add: try_body_def)
        from fetch_page_frame [OF this] f1 show ?thesis by auto
      qed
    qed
  qed
qed

text \<open>The handler, the batch check and the final flush.\<close>

lemma handle_fault_fields:
  "yielded (handle_fault u e stop s) = yielded s"
  "at_least_one_doc (handle_fault u e stop s) = at_least_one_doc s"
  "doc_batch (handle_fault u e stop s) = doc_batch s"
  "frontier (handle_fault u e stop s) = frontier s"
  "visiting (handle_fault u e stop s) = visiting s"
  "last_error (handle_fault u e stop s) = Some (''Failed to fetch '' @ quoted u @ '': '' @ e)"
  "uncaught (handle_fault u e stop s) = (case stop of Some e' \<Rightarrow> Some e' | None \<Rightarrow> uncaught s)"
  by (simp_all add: handle_fault_def playwright_stop_def split: option.splits)

lemma emit_if_full_bookkeeping: "bookkeeping s \<Longrightarrow> bookkeeping (emit_if_full self stop s)"
  by (auto simp: bookkeeping_def emit_if_full_def playwright_stop_def split: option.splits)

lemma emit_if_full_uncaught:
  "uncaught (emit_if_full self None s) = uncaught s"
  by (simp add: emit_if_full_def playwright_stop_def)

lemma loop_iteration_cases:
  obtains (idle) fr where "get_next_url F (frontier s) = (None, fr) \<or>
                           get_next_url F (frontier s) = (Some [], fr)"
      and "loop_iteration F L C self b ob s = s\<lparr>frontier := fr\<rparr>"
  | (visit) u fr c s1 where "get_next_url F (frontier s) = (Some u, fr)" and "u \<noteq> []"
      and "try_body F L C self b u ob (s\<lparr>frontier := fr, visiting := visiting s @ [u]\<rparr>)
             = (c, s1)"
      and "loop_iteration F L C self b ob s =
             (case c of
                Raised e \<Rightarrow> handle_fault u e (ob_stop ob) s1
              | Continue \<Rightarrow> s1
              | FallThrough \<Rightarrow> emit_if_full self (ob_stop ob) s1)"
proof -
  obtain cur fr where g: "get_next_url F (frontier s) = (cur, fr)"
    by (cases "get_next_url F (frontier s)")
  show ?thesis
  proof (cases "cur = None \<or> cur = Some []")
    case True
    then show ?thesis using g idle [of fr] by (auto simp: loop_iteration_def)
  next
    case False
    then obtain u where u: "cur = Some u" "u \<noteq> []" by auto
    obtain c s1 where
      t: "try_body F L C self b u ob (s\<lparr>frontier := fr, visiting := visiting s @ [u]\<rparr>)
            = (c, s1)"
      by (cases "try_body F L C self b u ob
                   (s\<lparr>frontier := fr, visiting := visiting s @ [u]\<rparr>)")
    have "loop_iteration F L C self b ob s =
             (case c of
                Raised e \<Rightarrow> handle_fault u e (ob_stop ob) s1
              | Continue \<Rightarrow> s1
              | FallThrough \<Rightarrow> emit_if_full self (ob_stop ob) s1)"
      using g u t by (cases c) (simp_all add: loop_iteration_def)
    then show ?thesis using visit [OF _ u(2) t] g u by simp
  qed
qed

lemma loop_iteration_bookkeeping:
  assumes "bookkeeping s"
  shows "bookkeeping (loop_iteration F L C self b ob s)"
proof (cases rule: loop_iteration_cases [of F s L C self b ob])
  case (idle fr)
  then show ?thesis using assms by (simp add: bookkeeping_def)
next
  case (visit u fr c s1)
  note f = try_body_frame [OF visit(3)]
  have b1: "bookkeeping s1" using assms f by (auto simp: bookkeeping_def)
  show ?thesis
  proof (cases c)
    case (Raised e)
    then show ?thesis using visit(4) b1
      by (simp add: bookkeeping_def handle_fault_fields quoted_def)
  next
    case Continue
    then show ?thesis using visit(4) b1 by simp
  next
    case FallThrough
    then show ?thesis using visit(4) b1 by (simp add: emit_if_full_bookkeeping)
  qed
qed

lemma loop_iteration_uncaught:
  assumes "uncaught s = None" and "ob_stop ob = None"
  shows "uncaught (loop_iteration F L C self b ob s) = None"
proof (cases rule: loop_iteration_cases [of F s L C self b ob])
  case (idle fr)
  then show ?thesis using assms by simp
next
  case (visit u fr c s1)
  have "uncaught s1 = None" using try_body_frame [OF visit(3)] assms by simp
  then show ?thesis using visit(4) assms
    by (cases c) (simp_all add: handle_fault_fields emit_if_full_uncaught)
qed

text \<open>The loop keeps the bookkeeping, and without a failing stop nothing is uncaught.\<close>

lemma crawl_loop_bookkeeping:
  "bookkeeping s \<Longrightarrow> crawl_loop F L C self b obs s = Some s' \<Longrightarrow> bookkeeping s'"
  by (induction obs arbitrary: s) (auto split: if_splits dest: loop_iteration_bookkeeping)

lemma crawl_loop_uncaught:
  "uncaught s = None \<Longrightarrow> \<forall>ob \<in> set obs. ob_stop ob = None \<Longrightarrow>
     crawl_loop F L C self b obs s = Some s' \<Longrightarrow> uncaught s' = None"
  by (induction obs arbitrary: s) (auto split: if_splits dest: loop_iteration_uncaught)

text \<open>
  A run finishes: when the frontier has a next URL before each of the first \<open>n\<close>
  iterations and none after them, and no stop fails, the loop returns the state after
  these \<open>n\<close> iterations.
\<close>

lemma crawl_loop_finishes:
  assumes "uncaught s = None" and "\<forall>ob \<in> set obs. ob_stop ob = None"
    and "n \<le> length obs"
    and "\<forall>k<n. has_next_url F (frontier (fold (loop_iteration F L C self b) (take k obs) s))"
    and "\<not> has_next_url F (frontier (fold (loop_iteration F L C self b) (take n obs) s))"
  shows "crawl_loop F L C self b obs s
           = Some (fold (loop_iteration F L C self b) (take n obs) s)"
  using assms
proof (induction obs arbitrary: s n)
  case Nil
  then show ?case by simp
next
  case (Cons ob obs)
  show ?case
  proof (cases n)
    case 0
    then show ?thesis using Cons.prems by simp
  next
    case (Suc m)
    have h0: "has_next_url F (frontier s)" using Cons.prems(4) Suc by force
    let ?s = "loop_iteration F L C self b ob s"
    have u: "uncaught ?s = None"
      using Cons.prems(1,2) by (simp add: loop_iteration_uncaught)
    have a: "\<forall>k<m. has_next_url F (frontier (fold (loop_iteration F L C self b) (take k obs) ?s))"
    proof (intro allI impI)
      fix k assume "k < m"
      then have "Suc k < n" using Suc by simp
      from Cons.prems(4) [rule_format, OF this] show
        "has_next_url F (frontier (fold (loop_iteration F L C self b) (take k obs) ?s))"
        by simp
    qed
    have b: "\<not> has_next_url F (frontier (fold (loop_iteration F L C self b) (take m obs) ?s))"
      using Cons.prems(5) Suc by simp
    have "crawl_loop F L C self b obs ?s
            = Some (fold (loop_iteration F L C self b) (take m obs) ?s)"
      using Cons.IH [OF u _ _ a b] Cons.prems(2,3) Suc by simp
    then show ?thesis using h0 Cons.prems(1) Suc by simp
  qed
qed

lemma initial_state_bookkeeping: "bookkeeping (initial_state F self)"
  by (simp add: initial_state_def bookkeeping_def)

section \<open>Properties of the link extractor\<close>

lemma py_in_iff: "py_in needle hay \<longleftrightarrow> (\<exists>p q. hay = p @ needle @ q)"
proof (induction hay)
  case Nil
  show ?case by auto
next
  case (Cons h hs)
  have "prefix needle (h # hs) \<longleftrightarrow> (\<exists>q. h # hs = [] @ needle @ q)"
    by (auto simp: prefix_def)
  moreover have "(\<exists>p q. hs = p @ needle @ q) \<longleftrightarrow> (\<exists>p q. h # hs = (h # p) @ needle @ q)"
    by auto
  moreover have "(\<exists>p q. h # hs = p @ needle @ q)
      \<longleftrightarrow> (\<exists>q. h # hs = [] @ needle @ q) \<or> (\<exists>p q. h # hs = (h # p) @ needle @ q)"
  proof
    assume "\<exists>p q. h # hs = p @ needle @ q"
    then obtain p q where pq: "h # hs = p @ needle @ q" by blast
    show "(\<exists>q. h # hs = [] @ needle @ q) \<or> (\<exists>p q. h # hs = (h # p) @ needle @ q)"
    proof (cases p)
      case Nil
      then show ?thesis using pq by auto
    next
      case (Cons a p')
      then have "a = h" using pq by simp
      then show ?thesis using pq Cons by blast
    qed
  next
    assume "(\<exists>q. h # hs = [] @ needle @ q) \<or> (\<exists>p q. h # hs = (h # p) @ needle @ q)"
    then show "\<exists>p q. h # hs = p @ needle @ q" by blast
  qed
  ultimately show ?case using Cons.IH by simp
qed

lemma is_internal_True_iff:
  "is_internal L base_url url href = Inr True \<longleftrightarrow>
     (\<exists>scheme scheme' netloc. urlparse L href = Inr (scheme, netloc)
         \<and> urlparse L url = Inr (scheme', netloc))
     \<and> (\<exists>p q. href = p @ base_url @ q)"
  by (auto simp: is_internal_def py_in_iff split: sum.splits prod.splits)

lemma internal_links_loop_set:
  "internal_links_loop L base_url url sip soup acc = Inr links \<Longrightarrow>
     set links = set acc \<union>
       {l. \<exists>href. Some href \<in> set soup \<and> href \<noteq> []
             \<and> resolve_href L url sip href = Inr l
             \<and> is_internal L base_url url l = Inr True}"
proof (induction soup arbitrary: acc)
  case Nil
  then show ?case by simp
next
  case (Cons link rest)
  show ?case
  proof (cases link)
    case None
    then show ?thesis using Cons by auto
  next
    case (Some href)
    show ?thesis
    proof (cases "href = []")
      case True
      then show ?thesis using Cons Some by auto
    next
      case False
      from Cons.prems Some False obtain href' keep where
        r: "resolve_href L url sip href = Inr href'"
        and k: "is_internal L base_url url href' = Inr keep"
        and rest: "internal_links_loop L base_url url sip rest
                     (if keep then List.insert href' acc else acc) = Inr links"
        by (auto split: sum.splits)
      from Cons.IH [OF rest] show ?thesis
        using Some False r k by (cases keep) auto
    qed
  qed
qed

section \<open>Claims\<close>

text \<open>
  C1, as the claim states it, fails on two runs that yield no batch. With an empty seed
  list, line 249 raises \<^verbatim>\<open>ValueError\<close> \<^verbatim>\<open>No URLs to visit\<close>: no fault was recorded, and
  the message is not \<^verbatim>\<open>No valid pages found.\<close> With a seed, when \<^verbatim>\<open>start_playwright()\<close>
  raises at line 262, outside the \<^verbatim>\<open>try\<close> statement, the generator ends with that
  exception.
\<close>

theorem C1_other_errors_counterexample:
  "load_from_state simple_url_frontier simple_lib no_oauth (connector False 10 [])
       start_ok [] None
     = Some \<lparr>batches = [], raised = Some (ValueError ''No URLs to visit''),
             fault = None, sessions = [], visited = []\<rparr>
   \<and> load_from_state simple_url_frontier simple_lib no_oauth
         (connector False 10 [''https://a.com/x''])
         \<lparr>start_launch = Some ''browser executable not found'',
          start_token = Inl ''not requested''\<rparr> [] None
     = Some \<lparr>batches = [], raised = Some (OtherError ''browser executable not found''),
             fault = None, sessions = [], visited = []\<rparr>"
  by code_simp

text \<open>
  C1, amended. Take a crawl with a non-empty seed list whose rendering sessions start
  (line 262) and stop (lines 373, 378, 385) without an exception, and whose frontier
  has a next URL before each of the first \<open>n\<close> iterations and none after them. Then the
  generator finishes, and: if it yielded no batch, it ends with \<^verbatim>\<open>RuntimeError\<close> whose
  message is the last recorded fault, or \<^verbatim>\<open>No valid pages found.\<close> when no fault was
  recorded; if it yielded at least one batch, it ends without an error.
\<close>

theorem C1_terminal_error:
  assumes "to_visit_list self = base_url # more_urls"
    and "assign_playwright C first_start (initial_state F self) = (None, s0)"
    and "\<forall>ob \<in> set obs. ob_stop ob = None"
    and "last_stop = None"
    and "n \<le> length obs"
    and "\<forall>k<n. has_next_url F
            (frontier (fold (loop_iteration F L C self base_url) (take k obs) s0))"
    and "\<not> has_next_url F
            (frontier (fold (loop_iteration F L C self base_url) (take n obs) s0))"
  shows "\<exists>r. load_from_state F L C self first_start obs last_stop = Some r
           \<and> (batches r = [] \<longrightarrow>
                raised r = Some (RuntimeError
                  (case fault r of None \<Rightarrow> ''No valid pages found.'' | Some e \<Rightarrow> e)))
           \<and> (batches r \<noteq> [] \<longrightarrow> raised r = None)"
proof -
  let ?s = "fold (loop_iteration F L C self base_url) (take n obs) s0"
  have f0: "uncaught s0 = None" "bookkeeping s0"
    using assign_playwright_frame [OF assms(2)] initial_state_bookkeeping [of F self]
    by (simp_all add: bookkeeping_def initial_state_def)
  have loop: "crawl_loop F L C self base_url obs s0 = Some ?s"
    by (rule crawl_loop_finishes [OF f0(1) assms(3) assms(5) assms(6) assms(7)])
  have u: "uncaught ?s = None"
    by (rule crawl_loop_uncaught [OF f0(1) assms(3) loop])
  have b: "bookkeeping ?s"
    by (rule crawl_loop_bookkeeping [OF f0(2) loop])
  have run: "load_from_state F L C self first_start obs last_stop
               = Some (crawl_result_of (final_flush None ?s))"
    using assms(1,2,4) loop u by (simp add: load_from_state_def)
  have fb: "bookkeeping (final_flush None ?s)" "uncaught (final_flush None ?s) = None"
    using b u by (auto simp: bookkeeping_def final_flush_def playwright_stop_def)
  have "(batches (crawl_result_of (final_flush None ?s)) = [] \<longrightarrow>
           raised (crawl_result_of (final_flush None ?s)) = Some (RuntimeError
             (case fault (crawl_result_of (final_flush None ?s)) of
                None \<Rightarrow> ''No valid pages found.'' | Some e \<Rightarrow> e)))
      \<and> (batches (crawl_result_of (final_flush None ?s)) \<noteq> [] \<longrightarrow>
           raised (crawl_result_of (final_flush None ?s)) = None)"
    using fb
    by (auto simp: crawl_result_of_def generator_end_def terminal_error_def bookkeeping_def
        split: option.splits)
  then show ?thesis using run by blast
qed

theorem C1_terminal_error_witness:
  "load_from_state simple_url_frontier simple_lib no_oauth
       (connector False 10 [''https://a.com/x'', ''https://a.com/y'']) start_ok
       [probe_answer (HTTPError (Some (500, None)) ''500 Server Error''),
        probe_answer (HTTPError (Some (500, None)) ''500 Server Error'')] None
     = Some \<lparr>batches = [],
             raised = Some (RuntimeError (''Failed to fetch '' @ quoted ''https://a.com/y''
               @ '': Internal Server Error (500) for https://a.com/y - 500 Server Error'')),
             fault = Some (''Failed to fetch '' @ quoted ''https://a.com/y''
               @ '': Internal Server Error (500) for https://a.com/y - 500 Server Error''),
             sessions = [False], visited = [''https://a.com/x'', ''https://a.com/y'']\<rparr>"
proof -
  let ?c = "connector False 10 [''https://a.com/x'', ''https://a.com/y'']"
  let ?ob = "probe_answer (HTTPError (Some (500, None)) ''500 Server Error'')"
  let ?s0 = "snd (assign_playwright no_oauth start_ok (initial_state simple_url_frontier ?c))"
  let ?it = "loop_iteration simple_url_frontier simple_lib no_oauth ?c ''https://a.com/x''"
  have h1: "to_visit_list ?c = ''https://a.com/x'' # [''https://a.com/y'']"
    by (simp add: connector_def)
  have h2: "assign_playwright no_oauth start_ok (initial_state simple_url_frontier ?c)
              = (None, ?s0)"
    by code_simp
  have h3: "\<forall>ob \<in> set [?ob, ?ob]. ob_stop ob = None" by (simp add: probe_answer_def)
  have h5: "2 \<le> length [?ob, ?ob]" by simp
  have k0: "has_next_url simple_url_frontier (frontier (fold ?it (take 0 [?ob, ?ob]) ?s0))"
    by code_simp
  have k1: "has_next_url simple_url_frontier (frontier (fold ?it (take 1 [?ob, ?ob]) ?s0))"
    by code_simp
  have h6: "\<forall>k<2. has_next_url simple_url_frontier
              (frontier (fold ?it (take k [?ob, ?ob]) ?s0))"
  proof (intro allI impI)
    fix k :: nat assume "k < 2"
    then have "k = 0 \<or> k = 1" by auto
    then show "has_next_url simple_url_frontier (frontier (fold ?it (take k [?ob, ?ob]) ?s0))"
      using k0 k1 by auto
  qed
  have h7: "\<not> has_next_url simple_url_frontier
              (frontier (fold ?it (take 2 [?ob, ?ob]) ?s0))"
    by code_simp
  obtain r where r: "load_from_state simple_url_frontier simple_lib no_oauth ?c start_ok
                       [?ob, ?ob] None = Some r"
    and e: "batches r = [] \<longrightarrow> raised r = Some (RuntimeError
              (case fault r of None \<Rightarrow> ''No valid pages found.'' | Some e \<Rightarrow> e))"
    using C1_terminal_error [OF h1 h2 h3 refl h5 h6 h7] by blast
  have run: "load_from_state simple_url_frontier simple_lib no_oauth ?c start_ok
       [?ob, ?ob] None
     = Some \<lparr>batches = [],
             raised = Some (RuntimeError (''Failed to fetch '' @ quoted ''https://a.com/y''
               @ '': Internal Server Error (500) for https://a.com/y - 500 Server Error'')),
             fault = Some (''Failed to fetch '' @ quoted ''https://a.com/y''
               @ '': Internal Server Error (500) for https://a.com/y - 500 Server Error''),
             sessions = [False], visited = [''https://a.com/x'', ''https://a.com/y'']\<rparr>"
    by code_simp
  show ?thesis using r e run by simp
qed

text \<open>
  C2. Claimed: a crawl that assembles \<open>k\<close> Documents with batch size \<open>b\<close> yields
  \<open>ceil(k/b)\<close> batches, none larger than \<open>b\<close>. The PDF branch ends with \<^verbatim>\<open>continue\<close>
  (line 312) and so skips the batch check of line 377, which only the rendered branch
  reaches. Here \<open>b = 1\<close> and four URLs are fetched, two PDFs and then two pages: the
  first batch yielded holds three Documents and is not the last one; two batches are
  yielded, not four.
\<close>

theorem C2_pdf_skips_batch_check:
  "load_from_state simple_url_frontier simple_lib no_oauth
       (connector False 1
          [''https://a.com/x.pdf'', ''https://a.com/y.pdf'', ''https://a.com/z'',
           ''https://a.com/w''])
       start_ok
       [pdf_answer 200 None, pdf_answer 200 None,
        page_answer 200 ''https://a.com/z'' [], page_answer 200 ''https://a.com/w'' []]
       None
     = Some \<lparr>batches =
               [[pdf_document simple_lib ''https://a.com/x.pdf'' ''pdf text'' [] None,
                 pdf_document simple_lib ''https://a.com/y.pdf'' ''pdf text'' [] None,
                 html_document simple_lib ''https://a.com/z'' ''page text'' (Some ''Title'')
                   None],
                [html_document simple_lib ''https://a.com/w'' ''page text'' (Some ''Title'')
                   None]],
             raised = None, fault = None, sessions = [False, False],
             visited = [''https://a.com/x.pdf'', ''https://a.com/y.pdf'',
                        ''https://a.com/z'', ''https://a.com/w'']\<rparr>"
  by code_simp

text \<open>
  C3. Claimed: the rendering session is torn down on every exit path. The final flush
  (line 385) stops the session only when the last batch is not empty. Here the only
  seed answers the probe, then \<^verbatim>\<open>page.goto\<close> returns no response: the URL is skipped
  with the session kept, the frontier is exhausted with an empty batch, and the
  generator raises \<^verbatim>\<open>RuntimeError\<close> while the session started at line 262 is still
  running (\<open>sessions = [True]\<close>).
\<close>

theorem C3_session_left_open:
  "load_from_state simple_url_frontier simple_lib no_oauth
       (connector False 10 [''https://a.com/x'']) start_ok [no_response] None
     = Some \<lparr>batches = [],
             raised = Some (RuntimeError (''Failed to fetch '' @ quoted ''https://a.com/x'')),
             fault = Some (''Failed to fetch '' @ quoted ''https://a.com/x''),
             sessions = [True], visited = [''https://a.com/x'']\<rparr>"
  by code_simp

text \<open>
  C9. A mode selector that is none of \<^verbatim>\<open>recursive\<close>, \<^verbatim>\<open>single\<close>, \<^verbatim>\<open>sitemap\<close>,
  \<^verbatim>\<open>upload\<close> makes the constructor raise \<^verbatim>\<open>ValueError\<close>, whatever the network would
  answer. An empty seed list makes \<^verbatim>\<open>load_from_state\<close> raise \<^verbatim>\<open>ValueError\<close> at once:
  no batch, no rendering session started, no URL visited, whatever the observations.
\<close>

theorem C9_immediate_errors:
  "(web_connector_type \<notin> {''recursive'', ''single'', ''sitemap'', ''upload''} \<longrightarrow>
      web_connector_init L base_url web_connector_type mintlify bsize sitemap url_file
        = Inl (ValueError ''Invalid Web Connector Config, must choose a valid type between: ''))
   \<and> (to_visit_list self = [] \<longrightarrow>
        load_from_state F L C self first_start obs last_stop
          = Some \<lparr>batches = [], raised = Some (ValueError ''No URLs to visit''),
                  fault = None, sessions = [], visited = []\<rparr>)"
  by (simp add: web_connector_init_def load_from_state_def)

theorem C9_immediate_errors_witness:
  "''crawl'' \<notin> {''recursive'', ''single'', ''sitemap'', ''upload''}
   \<and> web_connector_init simple_lib ''a.com'' ''crawl'' True 10
         \<lparr>sitemap_request = None, sitemap_locs = [], sitemap_urlsets = 0,
          site_pages = Inr []\<rparr> (Inr [])
       = Inl (ValueError ''Invalid Web Connector Config, must choose a valid type between: '')
   \<and> web_connector_init simple_lib ''urls.txt'' ''upload'' True 10
         \<lparr>sitemap_request = None, sitemap_locs = [], sitemap_urlsets = 0,
          site_pages = Inr []\<rparr> (Inr [''  ''])
       = Inr (connector False 10 [])
   \<and> load_from_state simple_url_frontier simple_lib no_oauth (connector False 10 [])
         start_ok [no_response] None
       = Some \<lparr>batches = [], raised = Some (ValueError ''No URLs to visit''),
               fault = None, sessions = [], visited = []\<rparr>"
proof -
  have t: "''crawl'' \<notin> {''recursive'', ''single'', ''sitemap'', ''upload''}" by simp
  have e: "to_visit_list (connector False 10 []) = []" by (simp add: connector_def)
  have u: "web_connector_init simple_lib ''urls.txt'' ''upload'' True 10
         \<lparr>sitemap_request = None, sitemap_locs = [], sitemap_urlsets = 0,
          site_pages = Inr []\<rparr> (Inr [''  ''])
       = Inr (connector False 10 [])"
    by code_simp
  show ?thesis
    using t e u
      C9_immediate_errors [where web_connector_type = "''crawl''" and L = simple_lib
        and base_url = "''a.com''" and mintlify = True and bsize = 10
        and sitemap = "\<lparr>sitemap_request = None, sitemap_locs = [], sitemap_urlsets = 0,
          site_pages = Inr []\<rparr>" and url_file = "Inr []"
        and self = "connector False 10 []" and F = simple_url_frontier
        and C = no_oauth and first_start = start_ok
        and obs = "[no_response]" and last_stop = None]
    by simp
qed

text \<open>
  C10. Once the probe has passed and the rendering session is there, the body of the
  \<^verbatim>\<open>try\<close> statement hands the URL to the direct GET (\<open>fetch_pdf\<close>) if the text after
  its final dot is exactly \<^verbatim>\<open>pdf\<close>, and to the rendering session (\<open>fetch_page\<close>)
  otherwise. The text after the final dot of a text without a dot is the whole text, as
  \<^verbatim>\<open>split\<close> has it, so such a text goes to the rendering session unless it is the bare
  text \<^verbatim>\<open>pdf\<close>. So \<^verbatim>\<open>https://a.com/x.pdf?v=1\<close> (a query string after the extension) and
  \<^verbatim>\<open>https://a.com/x.PDF\<close> (uppercase) take the rendered path, while
  \<^verbatim>\<open>https://a.com/x.pdf\<close> takes the direct GET.
\<close>

theorem C10_pdf_dispatch:
  "(check_internet_connection F current_url (ob_probe ob) (frontier s) = (None, fr)
      \<and> ensure_playwright C (ob_start ob) (s\<lparr>frontier := fr\<rparr>) = (None, s1)
      \<longrightarrow> try_body F L C self base_url current_url ob s
            = (if after_final_dot current_url = ''pdf''
               then fetch_pdf F L current_url (ob_pdf ob) s1
               else fetch_page F L (recursive self) base_url current_url (ob_page ob) s1))
   \<and> after_final_dot ''https://a.com/x.pdf?v=1'' = ''pdf?v=1''
   \<and> after_final_dot ''https://a.com/x.PDF'' = ''PDF''
   \<and> after_final_dot ''https://a.com/x.pdf'' = ''pdf''
   \<and> after_final_dot ''https://localhost/docs'' = ''https://localhost/docs''"
proof -
  have "try_body F L C self base_url current_url ob s
            = (if after_final_dot current_url = ''pdf''
               then fetch_pdf F L current_url (ob_pdf ob) s1
               else fetch_page F L (recursive self) base_url current_url (ob_page ob) s1)"
    if "check_internet_connection F current_url (ob_probe ob) (frontier s) = (None, fr)"
      and "ensure_playwright C (ob_start ob) (s\<lparr>frontier := fr\<rparr>) = (None, s1)"
    using that by (simp add: try_body_def is_pdf_url_after_final_dot)
  moreover have "after_final_dot ''https://a.com/x.pdf?v=1'' = ''pdf?v=1''"
    by (simp add: after_final_dot_def)
  moreover have "after_final_dot ''https://a.com/x.PDF'' = ''PDF''"
    by (simp add: after_final_dot_def)
  moreover have "after_final_dot ''https://a.com/x.pdf'' = ''pdf''"
    by (simp add: after_final_dot_def)
  moreover have "after_final_dot ''https://localhost/docs'' = ''https://localhost/docs''"
    by (simp add: after_final_dot_def)
  ultimately show ?thesis by blast
qed

theorem C10_pdf_dispatch_witness:
  "try_body simple_url_frontier simple_lib no_oauth (connector False 10 [])
       ''https://a.com'' ''https://a.com/x.pdf?v=1''
       (page_answer 200 ''https://a.com/x.pdf?v=1'' [])
       (snd (assign_playwright no_oauth start_ok
               (initial_state simple_url_frontier (connector False 10 []))))
     = fetch_page simple_url_frontier simple_lib False ''https://a.com''
         ''https://a.com/x.pdf?v=1''
         (ob_page (page_answer 200 ''https://a.com/x.pdf?v=1'' []))
         (snd (assign_playwright no_oauth start_ok
                 (initial_state simple_url_frontier (connector False 10 []))))
   \<and> try_body simple_url_frontier simple_lib no_oauth (connector False 10 [])
       ''https://a.com'' ''https://a.com/x.pdf''
       (pdf_answer 200 None)
       (snd (assign_playwright no_oauth start_ok
               (initial_state simple_url_frontier (connector False 10 []))))
     = fetch_pdf simple_url_frontier simple_lib ''https://a.com/x.pdf''
         (ob_pdf (pdf_answer 200 None))
         (snd (assign_playwright no_oauth start_ok
                 (initial_state simple_url_frontier (connector False 10 []))))"
proof -
  let ?c = "connector False 10 []"
  let ?s = "snd (assign_playwright no_oauth start_ok (initial_state simple_url_frontier ?c))"
  have p1: "check_internet_connection simple_url_frontier ''https://a.com/x.pdf?v=1''
              (ob_probe (page_answer 200 ''https://a.com/x.pdf?v=1'' [])) (frontier ?s)
            = (None, frontier ?s)"
    by (simp add: check_internet_connection_def page_answer_def)
  have p2: "check_internet_connection simple_url_frontier ''https://a.com/x.pdf''
              (ob_probe (pdf_answer 200 None)) (frontier ?s)
            = (None, frontier ?s)"
    by (simp add: check_internet_connection_def pdf_answer_def)
  have r: "\<not> restart_playwright ?s" by code_simp
  have e: "ensure_playwright no_oauth ob_s (?s\<lparr>frontier := frontier ?s\<rparr>) = (None, ?s)" for ob_s
    using r by (simp add: ensure_playwright_def)
  have d1: "after_final_dot ''https://a.com/x.pdf?v=1'' \<noteq> ''pdf''"
    by (simp add: after_final_dot_def)
  have d2: "after_final_dot ''https://a.com/x.pdf'' = ''pdf''"
    by (simp add: after_final_dot_def)
  have rc: "recursive ?c = False" by (simp add: connector_def)
  show ?thesis
    using C10_pdf_dispatch [of simple_url_frontier "''https://a.com/x.pdf?v=1''"
        "page_answer 200 ''https://a.com/x.pdf?v=1'' []" ?s "frontier ?s" no_oauth ?s
        simple_lib ?c "''https://a.com''"]
      C10_pdf_dispatch [of simple_url_frontier "''https://a.com/x.pdf''"
        "pdf_answer 200 None" ?s "frontier ?s" no_oauth ?s
        simple_lib ?c "''https://a.com''"]
      p1 p2 e d1 d2 rc
    by simp
qed

end
